theory Spec2Isabelle
  imports Complex_Main "HOL-Library.Sublist"
begin

section \<open>Graphical DXF entities (ezdxf/entities/dxfgfx.py)\<close>

text \<open>
  A shallow embedding of \<^verbatim>\<open>DXFGraphic\<close>, the base class of the graphical DXF entities,
  and of \<^verbatim>\<open>entity_linker\<close>, the closure that reassembles the flat entity stream into
  parents and their linked or attached children.

  Python objects are modelled as values. A method that mutates its object returns the
  object after the call; a method call on a collaborator whose code is elsewhere
  (\<^verbatim>\<open>link_entity\<close>, \<^verbatim>\<open>link_seqend\<close>, \<^verbatim>\<open>log_unprocessed_tags\<close>,
  \<^verbatim>\<open>write_tag2\<close>) is recorded in the order it is made; a \<^verbatim>\<open>raise\<close> is the
  \<open>Inl\<close> branch of a sum.
\<close>

subsection \<open>Values, attribute namespaces and entities\<close>

text \<open>The values a DXF attribute holds: strings, integers, floats and 3D vectors.\<close>

datatype dxfvalue =
    DXFStr string
  | DXFInt int
  | DXFFloat real
  | DXFVec "real \<times> real \<times> real"

text \<open>
  Python's truth value of an attribute value, as \<^verbatim>\<open>not entity.dxf.get(...)\<close> reads it:
  zero and the empty string are false.
\<close>

fun truthy :: "dxfvalue \<Rightarrow> bool" where
  "truthy (DXFStr s) = (s \<noteq> [])"
| "truthy (DXFInt n) = (n \<noteq> 0)"
| "truthy (DXFFloat x) = (x \<noteq> 0)"
| "truthy (DXFVec v) = True"

text \<open>
  A graphical entity: its \<^verbatim>\<open>DXFTYPE\<close>, the truth value Python gives the object, the
  attribute names its kind declares (\<^verbatim>\<open>DXFATTRIBS\<close>), the attribute bag
  \<^verbatim>\<open>self.dxf\<close> (a name is mapped to its value when the attribute is set), and what
  \<^verbatim>\<open>linked_entities()\<close> and \<^verbatim>\<open>attached_entities()\<close> yield. \<^verbatim>\<open>DXFGraphic\<close>
  itself yields two empty lists; the kinds that override the two methods live in other
  modules, so the lists are fields. The truth value is a field for the same reason:
  \<^verbatim>\<open>DXFGraphic\<close> defines neither a length nor a truth value, so its objects are true,
  but a kind that defines \<^verbatim>\<open>__len__\<close> is false while it is empty (an LWPOLYLINE
  without points).
\<close>

datatype dxfgraphic = DXFGraphic
  (DXFTYPE: string)
  (truth_value: bool)
  (dxfattribs: "string list")
  (dxf: "string \<rightharpoonup> dxfvalue")
  (linked_entities: "dxfgraphic list")
  (attached_entities: "dxfgraphic list")

text \<open>\<^verbatim>\<open>self.dxf.get(key, default)\<close>: the value when set, else the given default.\<close>

definition dxf_get :: "dxfgraphic \<Rightarrow> string \<Rightarrow> dxfvalue \<Rightarrow> dxfvalue" where
  "dxf_get entity key dflt = (case dxf entity key of Some v \<Rightarrow> v | None \<Rightarrow> dflt)"

text \<open>\<^verbatim>\<open>self.dxf.is_supported(key)\<close>: the entity's kind declares the attribute.\<close>

definition is_supported :: "dxfgraphic \<Rightarrow> string \<Rightarrow> bool" where
  "is_supported entity key = (key \<in> set (dxfattribs entity))"

text \<open>The exceptions this module raises, each with the argument it is raised with.\<close>

datatype dxferror =
    DXFStructureError string
  | DXFUnsupportedFeature string

subsection \<open>The entity linker\<close>

text \<open>
  The three \<^verbatim>\<open>nonlocal\<close> variables of the closure. \<^verbatim>\<open>entity_linker()\<close> returns the
  closure in its initial state.
\<close>

record linker_state =
  main_entity :: "dxfgraphic option"
  prev :: "dxfgraphic option"
  expected :: string

definition entity_linker :: linker_state where
  "entity_linker = \<lparr>main_entity = None, prev = None, expected = ''''\<rparr>"

definition LINKED_ENTITIES :: "string \<rightharpoonup> string" where
  "LINKED_ENTITIES = [''INSERT'' \<mapsto> ''ATTRIB'', ''POLYLINE'' \<mapsto> ''VERTEX'']"

text \<open>
  The calls the linker makes on a parent or host entity: \<open>Link_seqend m e\<close> is
  \<^verbatim>\<open>m.link_seqend(e)\<close>, \<open>Link_entity m e\<close> is \<^verbatim>\<open>m.link_entity(e)\<close>.
\<close>

datatype link_call =
    Link_seqend dxfgraphic dxfgraphic
  | Link_entity dxfgraphic dxfgraphic

text \<open>
  One call of the closure \<^verbatim>\<open>entity_linker_(entity)\<close>: the exception raised, or the
  returned flag \<^verbatim>\<open>are_linked_entities\<close>, the state after the call and the calls made.
  A raise leaves the three variables as they were, since \<^verbatim>\<open>prev = entity\<close> is the
  last statement. \<^verbatim>\<open>if prev:\<close> tests the truth value of \<^verbatim>\<open>prev\<close>: it fails when
  \<^verbatim>\<open>prev\<close> is \<^verbatim>\<open>None\<close> and also when the preceding entity is a false object.
\<close>

definition entity_linker_step ::
  "linker_state \<Rightarrow> dxfgraphic \<Rightarrow> dxferror + (bool \<times> linker_state \<times> link_call list)" where
  "entity_linker_step s entity =
     (let dxftype = DXFTYPE entity in
      case main_entity s of
        Some m \<Rightarrow>
          if dxftype = ''SEQEND'' then
            Inr (True, s\<lparr>main_entity := None, prev := Some entity\<rparr>, [Link_seqend m entity])
          else if dxftype = expected s then
            Inr (True, s\<lparr>prev := Some entity\<rparr>, [Link_entity m entity])
          else
            Inl (DXFStructureError (''expected DXF entity '' @ dxftype @ '' or SEQEND''))
      | None \<Rightarrow>
          (case LINKED_ENTITIES dxftype of
             Some child \<Rightarrow>
               if dxftype = ''INSERT'' \<and> \<not> truthy (dxf_get entity ''attribs_follow'' (DXFInt 0)) then
                 Inr (False, s\<lparr>prev := Some entity\<rparr>, [])
               else
                 Inr (False, s\<lparr>main_entity := Some entity, expected := child, prev := Some entity\<rparr>, [])
           | None \<Rightarrow>
               if dxftype = ''MTEXT'' \<and> dxf entity ''handle'' = None then
                 (case prev s of
                    Some p \<Rightarrow>
                      if truth_value p then
                        Inr (True, s\<lparr>prev := Some entity\<rparr>, [Link_entity p entity])
                      else
                        Inl (DXFStructureError ''Attached MTEXT entity without a preceding entity.'')
                  | None \<Rightarrow>
                      Inl (DXFStructureError ''Attached MTEXT entity without a preceding entity.''))
               else
                 Inr (False, s\<lparr>prev := Some entity\<rparr>, [])))"

text \<open>
  The closure called on the entities of a stream, one after the other: the flags
  returned, the final state and all calls made, or the first exception.
\<close>

fun feed ::
  "linker_state \<Rightarrow> dxfgraphic list \<Rightarrow> dxferror + (bool list \<times> linker_state \<times> link_call list)" where
  "feed s [] = Inr ([], s, [])"
| "feed s (e # es) =
     (case entity_linker_step s e of
        Inl err \<Rightarrow> Inl err
      | Inr (b, s', cs) \<Rightarrow>
          (case feed s' es of
             Inl err \<Rightarrow> Inl err
           | Inr (bs, s'', cs') \<Rightarrow> Inr (b # bs, s'', cs @ cs')))"

subsection \<open>Ownership\<close>

text \<open>
  \<^verbatim>\<open>set_owner(owner, paperspace)\<close>. The method returns nothing (\<open>unit\<close>) and mutates
  the entity and, through the loop over \<^verbatim>\<open>linked_entities()\<close>, its linked children; the
  second component is the entity after the call. \<^verbatim>\<open>if paperspace:\<close> tests the integer
  against zero.
\<close>

fun set_owner :: "string \<Rightarrow> int \<Rightarrow> dxfgraphic \<Rightarrow> unit \<times> dxfgraphic" where
  "set_owner owner paperspace (DXFGraphic t b a ns linked attached) =
     ((), DXFGraphic t b a
            (let ns1 = ns(''owner'' \<mapsto> DXFStr owner) in
             if paperspace \<noteq> 0 then ns1(''paperspace'' \<mapsto> DXFInt paperspace)
             else ns1(''paperspace'' := None))
            (map (\<lambda>e. snd (set_owner owner paperspace e)) linked)
            attached)"

text \<open>
  An entity followed by everything reachable from it through \<^verbatim>\<open>linked_entities()\<close>,
  in the order the loop of \<^verbatim>\<open>set_owner\<close> visits them.
\<close>

fun linked_closure :: "dxfgraphic \<Rightarrow> dxfgraphic list" where
  "linked_closure (DXFGraphic t b a ns linked attached) =
     DXFGraphic t b a ns linked attached # concat (map linked_closure linked)"

subsection \<open>Object coordinate system\<close>

text \<open>
  \<^verbatim>\<open>OCS(extrusion)\<close> is built by \<^verbatim>\<open>ezdxf.math\<close>; here it is the constructor applied
  to the extrusion it is given.
\<close>

datatype coordinate_system = OCS dxfvalue

definition ocs :: "dxfgraphic \<Rightarrow> coordinate_system option" where
  "ocs self =
     (if is_supported self ''extrusion'' then
        (let extrusion = dxf_get self ''extrusion'' (DXFVec (0, 0, 1)) in Some (OCS extrusion))
      else None)"

subsection \<open>The geometric operations of the base class\<close>

text \<open>
  The six operations as \<^verbatim>\<open>DXFGraphic\<close> defines them; a kind that supports one overrides
  it in its own module. Each converts its arguments and then raises unless \<^verbatim>\<open>ignore\<close>
  is set. The result is the exception, or \<open>unit\<close> and the entity after the call. The
  coordinate system and the matrix are not inspected, so their types are left open, and
  \<^verbatim>\<open>ucs = ucs or UCS()\<close> in \<^verbatim>\<open>rotate\<close>, which only rebinds a local variable, has
  no counterpart. \<^verbatim>\<open>Vector(direction)\<close> wraps an (x, y, z) tuple and \<^verbatim>\<open>float(x)\<close>
  of a number is the number.
\<close>

datatype vector = Vector "real \<times> real \<times> real"

definition float :: "real \<Rightarrow> real" where
  "float x = x"

definition translate ::
  "real \<times> real \<times> real \<Rightarrow> bool \<Rightarrow> dxfgraphic \<Rightarrow> dxferror + unit \<times> dxfgraphic" where
  "translate direction ignore self =
     (let direction = Vector direction in
      if \<not> ignore then Inl (DXFUnsupportedFeature (DXFTYPE self)) else Inr ((), self))"

definition scale :: "real \<Rightarrow> bool \<Rightarrow> dxfgraphic \<Rightarrow> dxferror + unit \<times> dxfgraphic" where
  "scale factor ignore self =
     (let factor = float factor in
      if \<not> ignore then Inl (DXFUnsupportedFeature (DXFTYPE self)) else Inr ((), self))"

definition scale_xyz ::
  "real \<Rightarrow> real \<Rightarrow> real \<Rightarrow> bool \<Rightarrow> dxfgraphic \<Rightarrow> dxferror + unit \<times> dxfgraphic" where
  "scale_xyz sx sy sz ignore self =
     (let sx = float sx; sy = float sy; sz = float sz in
      if \<not> ignore then Inl (DXFUnsupportedFeature (DXFTYPE self)) else Inr ((), self))"

definition rotate ::
  "real \<Rightarrow> 'ucs option \<Rightarrow> bool \<Rightarrow> dxfgraphic \<Rightarrow> dxferror + unit \<times> dxfgraphic" where
  "rotate angle ucs ignore self =
     (let angle = float angle in
      if \<not> ignore then Inl (DXFUnsupportedFeature (DXFTYPE self)) else Inr ((), self))"

definition transform :: "'matrix \<Rightarrow> bool \<Rightarrow> dxfgraphic \<Rightarrow> dxferror + unit \<times> dxfgraphic" where
  "transform matrix ignore self =
     (if \<not> ignore then Inl (DXFUnsupportedFeature (DXFTYPE self)) else Inr ((), self))"

definition to_wsc :: "'ucs \<Rightarrow> bool \<Rightarrow> dxfgraphic \<Rightarrow> dxferror + unit \<times> dxfgraphic" where
  "to_wsc ucs ignore self =
     (if \<not> ignore then Inl (DXFUnsupportedFeature (DXFTYPE self)) else Inr ((), self))"

subsection \<open>The subclass AcDbEntity\<close>

text \<open>
  Modelled from the spec: the format versions \<^verbatim>\<open>DXF12\<close>, \<^verbatim>\<open>DXF2000\<close>,
  \<^verbatim>\<open>DXF2004\<close> and \<^verbatim>\<open>DXF2007\<close> of \<^verbatim>\<open>ezdxf.lldxf.const\<close>, which this module
  imports and compares. The spec gives them as a strict order, legacy below v2000 below
  v2004 below v2007 below the later ones; a version is its rank in that order.
\<close>

type_synonym dxfversion = nat

definition DXF12 :: dxfversion where "DXF12 = 0"
definition DXF2000 :: dxfversion where "DXF2000 = 1"
definition DXF2004 :: dxfversion where "DXF2004 = 2"
definition DXF2007 :: dxfversion where "DXF2007 = 3"

text \<open>
  Modelled from the spec: the group code \<^verbatim>\<open>SUBCLASS_MARKER\<close> of
  \<^verbatim>\<open>ezdxf.lldxf.const\<close>, the slot of the subclass-marker tag (100 in the DXF format).
\<close>

definition SUBCLASS_MARKER :: int where "SUBCLASS_MARKER = 100"

text \<open>A DXF tag: its group code and its value.\<close>

type_synonym dxftag = "int \<times> dxfvalue"

text \<open>
  An attribute definition: the group code, the default value if any, the first version
  that knows the attribute, and whether it is optional.
\<close>

record dxfattr =
  attr_code :: int
  attr_default :: "dxfvalue option"
  attr_dxfversion :: dxfversion
  attr_optional :: bool

text \<open>
  Modelled from the spec: the constructor
  \<^verbatim>\<open>DXFAttr(code, default=, dxfversion=, optional=)\<close> of \<^verbatim>\<open>ezdxf.lldxf.attributes\<close>
  with its keyword defaults, which \<^verbatim>\<open>acdb_entity\<close> below writes out: an attribute
  declared without \<^verbatim>\<open>optional\<close> is required, one without \<^verbatim>\<open>dxfversion\<close> is known
  from the legacy version on, and one without \<^verbatim>\<open>default\<close> has none.
\<close>

definition DXFAttr :: "int \<Rightarrow> dxfvalue option \<Rightarrow> dxfversion \<Rightarrow> bool \<Rightarrow> dxfattr" where
  "DXFAttr c d v opt =
     \<lparr>attr_code = c, attr_default = d, attr_dxfversion = v, attr_optional = opt\<rparr>"

text \<open>
  \<^verbatim>\<open>DefSubclass(name, attribs)\<close>: the subclass name and the attribute definitions in
  the order the dictionary literal declares them.
\<close>

record defsubclass =
  subclass_name :: string
  attribs :: "(string \<times> dxfattr) list"

definition acdb_entity :: defsubclass where
  "acdb_entity =
     \<lparr>subclass_name = ''AcDbEntity'',
      attribs =
        [(''layer'', DXFAttr 8 (Some (DXFStr ''0'')) DXF12 False),
         (''linetype'', DXFAttr 6 (Some (DXFStr ''BYLAYER'')) DXF12 True),
         (''color'', DXFAttr 62 (Some (DXFInt 256)) DXF12 True),
         (''paperspace'', DXFAttr 67 (Some (DXFInt 0)) DXF12 True),
         (''lineweight'', DXFAttr 370 (Some (DXFInt (- 1))) DXF2000 True),
         (''ltscale'', DXFAttr 48 (Some (DXFFloat 1)) DXF2000 True),
         (''invisible'', DXFAttr 60 (Some (DXFInt 0)) DXF2000 True),
         (''true_color'', DXFAttr 420 None DXF2004 True),
         (''color_name'', DXFAttr 430 None DXF2004 True),
         (''transparency'', DXFAttr 440 None DXF2004 True),
         (''shadow_mode'', DXFAttr 284 None DXF2007 True),
         (''material_handle'', DXFAttr 347 None DXF2007 True),
         (''plotstyle_handle'', DXFAttr 390 None DXF2007 True)]\<rparr>"

subsection \<open>Loading the subclass\<close>

text \<open>
  The \<^verbatim>\<open>SubclassProcessor\<close> as this module uses it: the flag \<^verbatim>\<open>r12\<close> and the tag
  group of the subclass being loaded.
\<close>

record subclass_processor =
  r12 :: bool
  subclass_tags :: "dxftag list"

text \<open>
  Modelled from the spec: \<^verbatim>\<open>SubclassProcessor.load_dxfattribs_into_namespace\<close> of
  \<^verbatim>\<open>ezdxf/entities/dxfentity.py\<close>, the decode step of the subclass tag codec. For
  each tag of the group in turn, the slot is looked up in the schema; a tag whose slot is
  found is stored under the attribute's name, one whose slot is not found is
  accumulated as an unprocessed tag. The result is the namespace after the call and
  the unprocessed tags in their order.
\<close>

fun load_tags ::
  "(string \<times> dxfattr) list \<Rightarrow> dxftag list \<Rightarrow> (string \<rightharpoonup> dxfvalue)
    \<Rightarrow> (string \<rightharpoonup> dxfvalue) \<times> dxftag list" where
  "load_tags schema [] ns = (ns, [])"
| "load_tags schema (t # ts) ns =
     (case find (\<lambda>(name, a). attr_code a = fst t) schema of
        Some (name, a) \<Rightarrow> load_tags schema ts (ns(name \<mapsto> snd t))
      | None \<Rightarrow> (case load_tags schema ts ns of (ns', unprocessed) \<Rightarrow> (ns', t # unprocessed)))"

definition load_dxfattribs_into_namespace ::
  "subclass_processor \<Rightarrow> (string \<rightharpoonup> dxfvalue) \<Rightarrow> defsubclass
    \<Rightarrow> (string \<rightharpoonup> dxfvalue) \<times> dxftag list" where
  "load_dxfattribs_into_namespace processor ns subclass =
     load_tags (attribs subclass) (subclass_tags processor) ns"

text \<open>The call \<^verbatim>\<open>processor.log_unprocessed_tags(tags, subclass=name)\<close>.\<close>

datatype log_call = Log_unprocessed_tags "dxftag list" string

text \<open>
  \<^verbatim>\<open>DXFGraphic.load_dxf_attribs(processor)\<close>. The first argument is the namespace
  that \<^verbatim>\<open>super().load_dxf_attribs(processor)\<close> returns, the base class processing done
  by the parent class. The result is the namespace returned and the calls made on the
  processor's log.
\<close>

definition load_dxf_attribs ::
  "(string \<rightharpoonup> dxfvalue) \<Rightarrow> subclass_processor option
    \<Rightarrow> (string \<rightharpoonup> dxfvalue) \<times> log_call list" where
  "load_dxf_attribs dxf0 processor =
     (case processor of
        None \<Rightarrow> (dxf0, [])
      | Some p \<Rightarrow>
          (case load_dxfattribs_into_namespace p dxf0 acdb_entity of
             (dxf1, tags) \<Rightarrow>
               if length tags \<noteq> 0 \<and> \<not> r12 p then
                 (dxf1, [Log_unprocessed_tags tags (subclass_name acdb_entity)])
               else (dxf1, [])))"

subsection \<open>Exporting the subclass\<close>

text \<open>
  Modelled from the spec: \<^verbatim>\<open>DXFNamespace.export_dxf_attribs\<close> of
  \<^verbatim>\<open>ezdxf/entities/dxfentity.py\<close>, the encode step of the subclass tag codec. For
  each name of the given list in turn: the attribute is skipped when its value is
  absent and it is optional, and when its first version is above the target version;
  otherwise one tag with the attribute's group code is written. A required attribute
  without a value is written with its default. The names are resolved in the schema
  given, for a graphical entity the subclass \<^verbatim>\<open>acdb_entity\<close> that every
  \<^verbatim>\<open>DXFATTRIBS\<close> built on \<^verbatim>\<open>DXFGraphic\<close> contains. The result is the tags written.
\<close>

definition export_dxf_attrib ::
  "dxfversion \<Rightarrow> (string \<times> dxfattr) list \<Rightarrow> (string \<rightharpoonup> dxfvalue) \<Rightarrow> string \<Rightarrow> dxftag list" where
  "export_dxf_attrib dxfversion schema ns name =
     (case map_of schema name of
        None \<Rightarrow> []
      | Some a \<Rightarrow>
          if ns name = None \<and> attr_optional a then []
          else if dxfversion < attr_dxfversion a then []
          else (case ns name of
                  Some v \<Rightarrow> [(attr_code a, v)]
                | None \<Rightarrow> (case attr_default a of Some d \<Rightarrow> [(attr_code a, d)] | None \<Rightarrow> [])))"

definition export_dxf_attribs ::
  "dxfversion \<Rightarrow> (string \<times> dxfattr) list \<Rightarrow> (string \<rightharpoonup> dxfvalue) \<Rightarrow> string list \<Rightarrow> dxftag list" where
  "export_dxf_attribs dxfversion schema ns names =
     concat (map (export_dxf_attrib dxfversion schema ns) names)"

text \<open>
  \<^verbatim>\<open>DXFGraphic.export_acdb_entity(tagwriter)\<close>: the tags written to a tag writer of
  the given \<^verbatim>\<open>dxfversion\<close>, in the order they are written.
\<close>

definition export_acdb_entity :: "dxfversion \<Rightarrow> dxfgraphic \<Rightarrow> dxftag list" where
  "export_acdb_entity dxfversion self =
     (if dxfversion > DXF12 then [(SUBCLASS_MARKER, DXFStr (subclass_name acdb_entity))] else [])
     @ export_dxf_attribs dxfversion (attribs acdb_entity) (dxf self)
         [''layer'', ''linetype'', ''material_handle'', ''color'', ''paperspace'', ''lineweight'',
          ''ltscale'', ''true_color'', ''color_name'', ''transparency'', ''plotstyle_handle'',
          ''shadow_mode'']"

section \<open>Properties of the entity linker\<close>

lemma LINKED_ENTITIES_simps:
  "LINKED_ENTITIES ''INSERT'' = Some ''ATTRIB''"
  "LINKED_ENTITIES ''POLYLINE'' = Some ''VERTEX''"
  "LINKED_ENTITIES ''SEQEND'' = None"
  "LINKED_ENTITIES ''ATTRIB'' = None"
  "LINKED_ENTITIES ''VERTEX'' = None"
  "LINKED_ENTITIES ''MTEXT'' = None"
  "LINKED_ENTITIES ''LINE'' = None"
  by (simp_all add: LINKED_ENTITIES_def)

text \<open>
  While a parent is open, an entity that is neither the expected child nor SEQEND makes
  the call raise \<^verbatim>\<open>DXFStructureError\<close>; the message is built from the type of the
  entity that arrived.
\<close>

lemma structure_error_while_open:
  assumes "main_entity s = Some m"
    and "DXFTYPE entity \<noteq> ''SEQEND''"
    and "DXFTYPE entity \<noteq> expected s"
  shows "entity_linker_step s entity =
    Inl (DXFStructureError (''expected DXF entity '' @ DXFTYPE entity @ '' or SEQEND''))"
  using assms by (simp add: entity_linker_step_def)

text \<open>
  Claim C1. While a parent is open, an entity whose kind is neither the expected child
  kind nor SEQEND makes the linker raise \<^verbatim>\<open>DXFStructureError\<close>, and the message is
  to name the kind that arrived and what was expected. Here an INSERT with
  \<^verbatim>\<open>attribs_follow = 1\<close> has opened a parent that expects ATTRIB, and a LINE arrives.
  The call raises, but the message is \<^verbatim>\<open>expected DXF entity LINE or SEQEND\<close>: the
  template is filled with the type of the entity that arrived, so the message presents
  LINE as the expected kind and does not contain ATTRIB, the kind that was expected.
\<close>

theorem structure_error_message_omits_expected_kind:
  "feed entity_linker
     [DXFGraphic ''INSERT'' True [] [''handle'' \<mapsto> DXFStr ''A1'', ''attribs_follow'' \<mapsto> DXFInt 1] [] [],
      DXFGraphic ''LINE'' True [] [''handle'' \<mapsto> DXFStr ''A2''] [] []]
   = Inl (DXFStructureError ''expected DXF entity LINE or SEQEND'')
   \<and> sublist ''LINE'' ''expected DXF entity LINE or SEQEND''
   \<and> sublist ''SEQEND'' ''expected DXF entity LINE or SEQEND''
   \<and> \<not> sublist ''ATTRIB'' ''expected DXF entity LINE or SEQEND''"
proof -
  have "\<not> sublist ''ATTRIB'' ''expected DXF entity LINE or SEQEND''"
    by code_simp
  moreover have "sublist ''LINE'' ''expected DXF entity LINE or SEQEND''"
    by code_simp
  moreover have "sublist ''SEQEND'' ''expected DXF entity LINE or SEQEND''"
    by code_simp
  ultimately show ?thesis
    by (simp add: Let_def entity_linker_def entity_linker_step_def dxf_get_def
        LINKED_ENTITIES_simps)
qed

text \<open>
  Claim C2 (scenario A). From the initial state, the stream INSERT (with a true
  \<^verbatim>\<open>attribs_follow\<close>), ATTRIB, ATTRIB, SEQEND: the linker returns false for the INSERT
  and true for the two ATTRIBs and the SEQEND; it calls \<^verbatim>\<open>link_entity\<close> on the INSERT
  with the first and then the second ATTRIB, then \<^verbatim>\<open>link_seqend\<close> on the INSERT with
  the SEQEND, and no parent is open afterwards.
\<close>

theorem insert_with_attribs_is_linked:
  assumes "DXFTYPE ins = ''INSERT''"
    and "truthy (dxf_get ins ''attribs_follow'' (DXFInt 0))"
    and "DXFTYPE a1 = ''ATTRIB''"
    and "DXFTYPE a2 = ''ATTRIB''"
    and "DXFTYPE sq = ''SEQEND''"
  shows "feed entity_linker [ins, a1, a2, sq] =
    Inr ([False, True, True, True],
         \<lparr>main_entity = None, prev = Some sq, expected = ''ATTRIB''\<rparr>,
         [Link_entity ins a1, Link_entity ins a2, Link_seqend ins sq])"
  using assms
  by (simp add: Let_def entity_linker_def entity_linker_step_def LINKED_ENTITIES_simps)

theorem insert_with_attribs_is_linked_witness:
  "feed entity_linker
     [DXFGraphic ''INSERT'' True [] [''handle'' \<mapsto> DXFStr ''A1'', ''attribs_follow'' \<mapsto> DXFInt 1] [] [],
      DXFGraphic ''ATTRIB'' True [] [''handle'' \<mapsto> DXFStr ''A2''] [] [],
      DXFGraphic ''ATTRIB'' True [] [''handle'' \<mapsto> DXFStr ''A3''] [] [],
      DXFGraphic ''SEQEND'' True [] [''handle'' \<mapsto> DXFStr ''A4''] [] []]
   = Inr ([False, True, True, True],
         \<lparr>main_entity = None,
          prev = Some (DXFGraphic ''SEQEND'' True [] [''handle'' \<mapsto> DXFStr ''A4''] [] []),
          expected = ''ATTRIB''\<rparr>,
         [Link_entity
            (DXFGraphic ''INSERT'' True [] [''handle'' \<mapsto> DXFStr ''A1'', ''attribs_follow'' \<mapsto> DXFInt 1] [] [])
            (DXFGraphic ''ATTRIB'' True [] [''handle'' \<mapsto> DXFStr ''A2''] [] []),
          Link_entity
            (DXFGraphic ''INSERT'' True [] [''handle'' \<mapsto> DXFStr ''A1'', ''attribs_follow'' \<mapsto> DXFInt 1] [] [])
            (DXFGraphic ''ATTRIB'' True [] [''handle'' \<mapsto> DXFStr ''A3''] [] []),
          Link_seqend
            (DXFGraphic ''INSERT'' True [] [''handle'' \<mapsto> DXFStr ''A1'', ''attribs_follow'' \<mapsto> DXFInt 1] [] [])
            (DXFGraphic ''SEQEND'' True [] [''handle'' \<mapsto> DXFStr ''A4''] [] [])])"
  by (rule insert_with_attribs_is_linked) (simp_all add: dxf_get_def)

text \<open>
  Claim C3 (scenario B). With no parent open, an INSERT whose \<^verbatim>\<open>attribs_follow\<close> is
  unset or false opens no parent: the linker returns false for it, makes no call and
  leaves \<^verbatim>\<open>main_entity\<close> empty; an ATTRIB that follows is returned as top-level (false)
  as well, again with no call.
\<close>

theorem flagless_insert_opens_no_parent:
  assumes "main_entity s = None"
    and "DXFTYPE ins = ''INSERT''"
    and "\<not> truthy (dxf_get ins ''attribs_follow'' (DXFInt 0))"
    and "DXFTYPE a = ''ATTRIB''"
  shows "entity_linker_step s ins = Inr (False, s\<lparr>prev := Some ins\<rparr>, [])
    \<and> main_entity (s\<lparr>prev := Some ins\<rparr>) = None
    \<and> entity_linker_step (s\<lparr>prev := Some ins\<rparr>) a = Inr (False, s\<lparr>prev := Some a\<rparr>, [])
    \<and> feed s [ins, a] = Inr ([False, False], s\<lparr>prev := Some a\<rparr>, [])"
  using assms
  by (simp add: Let_def entity_linker_step_def LINKED_ENTITIES_simps)

theorem flagless_insert_opens_no_parent_witness:
  "feed entity_linker
     [DXFGraphic ''INSERT'' True [] [''handle'' \<mapsto> DXFStr ''A1''] [] [],
      DXFGraphic ''ATTRIB'' True [] [''handle'' \<mapsto> DXFStr ''A2''] [] []]
   = Inr ([False, False],
          entity_linker\<lparr>prev := Some (DXFGraphic ''ATTRIB'' True [] [''handle'' \<mapsto> DXFStr ''A2''] [] [])\<rparr>,
          [])
   \<and> feed entity_linker
     [DXFGraphic ''INSERT'' True [] [''handle'' \<mapsto> DXFStr ''A1'', ''attribs_follow'' \<mapsto> DXFInt 0] [] [],
      DXFGraphic ''ATTRIB'' True [] [''handle'' \<mapsto> DXFStr ''A2''] [] []]
   = Inr ([False, False],
          entity_linker\<lparr>prev := Some (DXFGraphic ''ATTRIB'' True [] [''handle'' \<mapsto> DXFStr ''A2''] [] [])\<rparr>,
          [])"
  using
    flagless_insert_opens_no_parent [of entity_linker
      "DXFGraphic ''INSERT'' True [] [''handle'' \<mapsto> DXFStr ''A1''] [] []"
      "DXFGraphic ''ATTRIB'' True [] [''handle'' \<mapsto> DXFStr ''A2''] [] []"]
    flagless_insert_opens_no_parent [of entity_linker
      "DXFGraphic ''INSERT'' True [] [''handle'' \<mapsto> DXFStr ''A1'', ''attribs_follow'' \<mapsto> DXFInt 0] [] []"
      "DXFGraphic ''ATTRIB'' True [] [''handle'' \<mapsto> DXFStr ''A2''] [] []"]
  by (simp add: entity_linker_def dxf_get_def)

text \<open>
  With no parent open, an MTEXT without a handle is handed to the preceding entity by
  \<^verbatim>\<open>link_entity\<close> and the linker returns true when the preceding entity is a true
  object; when there is none, or when it is a false object, the linker raises
  \<^verbatim>\<open>DXFStructureError\<close>.
\<close>

lemma attached_mtext_step:
  assumes "main_entity s = None"
    and "DXFTYPE mt = ''MTEXT''"
    and "dxf mt ''handle'' = None"
  shows "entity_linker_step s mt =
    (case prev s of
       Some p \<Rightarrow>
         if truth_value p then Inr (True, s\<lparr>prev := Some mt\<rparr>, [Link_entity p mt])
         else Inl (DXFStructureError ''Attached MTEXT entity without a preceding entity.'')
     | None \<Rightarrow> Inl (DXFStructureError ''Attached MTEXT entity without a preceding entity.''))"
  using assms
  by (simp add: Let_def entity_linker_step_def LINKED_ENTITIES_simps split: option.splits)

text \<open>
  Claim C6. With no parent open, an MTEXT without a handle is to be attached to the
  immediately preceding entity by \<^verbatim>\<open>link_entity\<close> and consumed, and the linker is to
  raise only when there is no preceding entity at all. After an ATTDEF the MTEXT is
  linked to it and the linker returns true, and as the first entity of the stream it
  makes the linker raise. But the test is \<^verbatim>\<open>if prev:\<close>, the truth value of the
  preceding entity, not \<^verbatim>\<open>prev is not None\<close>: after an LWPOLYLINE without points, a
  false object, the linker raises
  \<^verbatim>\<open>Attached MTEXT entity without a preceding entity.\<close> although the MTEXT has a
  preceding entity, and nothing is linked.
\<close>

theorem attached_mtext_after_false_entity_raises:
  "feed entity_linker
     [DXFGraphic ''LWPOLYLINE'' False [] [''handle'' \<mapsto> DXFStr ''A1''] [] [],
      DXFGraphic ''MTEXT'' True [] Map.empty [] []]
     = Inl (DXFStructureError ''Attached MTEXT entity without a preceding entity.'')
   \<and> feed entity_linker
       [DXFGraphic ''ATTDEF'' True [] [''handle'' \<mapsto> DXFStr ''A1''] [] [],
        DXFGraphic ''MTEXT'' True [] Map.empty [] []]
     = Inr ([False, True],
            entity_linker\<lparr>prev := Some (DXFGraphic ''MTEXT'' True [] Map.empty [] [])\<rparr>,
            [Link_entity (DXFGraphic ''ATTDEF'' True [] [''handle'' \<mapsto> DXFStr ''A1''] [] [])
               (DXFGraphic ''MTEXT'' True [] Map.empty [] [])])
   \<and> feed entity_linker [DXFGraphic ''MTEXT'' True [] Map.empty [] []]
     = Inl (DXFStructureError ''Attached MTEXT entity without a preceding entity.'')"
  by (simp add: Let_def entity_linker_def entity_linker_step_def LINKED_ENTITIES_def)

text \<open>
  Claim C7 (scenario C). With no parent open, a SEQEND, an ATTRIB or a VERTEX does not
  make the linker raise: it returns false (a top-level entity), makes no call, and
  only \<^verbatim>\<open>prev\<close> changes.
\<close>

theorem stray_child_kind_is_top_level:
  assumes "main_entity s = None"
    and "DXFTYPE e = ''SEQEND'' \<or> DXFTYPE e = ''ATTRIB'' \<or> DXFTYPE e = ''VERTEX''"
  shows "entity_linker_step s e = Inr (False, s\<lparr>prev := Some e\<rparr>, [])"
  using assms
  by (auto simp add: Let_def entity_linker_step_def LINKED_ENTITIES_simps)

theorem stray_child_kind_is_top_level_witness:
  "feed entity_linker
     [DXFGraphic ''LINE'' True [] [''handle'' \<mapsto> DXFStr ''A1''] [] [],
      DXFGraphic ''SEQEND'' True [] [''handle'' \<mapsto> DXFStr ''A2''] [] []]
   = Inr ([False, False],
          entity_linker\<lparr>prev := Some (DXFGraphic ''SEQEND'' True [] [''handle'' \<mapsto> DXFStr ''A2''] [] [])\<rparr>,
          [])"
  using
    stray_child_kind_is_top_level
      [of "entity_linker\<lparr>prev := Some (DXFGraphic ''LINE'' True [] [''handle'' \<mapsto> DXFStr ''A1''] [] [])\<rparr>"
          "DXFGraphic ''SEQEND'' True [] [''handle'' \<mapsto> DXFStr ''A2''] [] []"]
  by (simp add: Let_def entity_linker_def entity_linker_step_def LINKED_ENTITIES_def)

section \<open>Properties of the entity methods\<close>

lemma linked_closure_set_owner:
  "linked_closure (snd (set_owner owner p e)) =
     map (\<lambda>x. snd (set_owner owner p x)) (linked_closure e)"
proof (induction e)
  case (DXFGraphic t b a ns linked attached)
  have "concat (map linked_closure (map (\<lambda>e. snd (set_owner owner p e)) linked)) =
        map (\<lambda>x. snd (set_owner owner p x)) (concat (map linked_closure linked))"
    using DXFGraphic.IH(1) by (induction linked) (simp_all add: map_concat)
  then show ?case
    by (simp add: Let_def)
qed

lemma set_owner_node:
  "dxf (snd (set_owner owner p x)) ''owner'' = Some (DXFStr owner)
   \<and> dxf (snd (set_owner owner p x)) ''paperspace'' = (if p = 0 then None else Some (DXFInt p))
   \<and> DXFTYPE (snd (set_owner owner p x)) = DXFTYPE x
   \<and> truth_value (snd (set_owner owner p x)) = truth_value x
   \<and> dxfattribs (snd (set_owner owner p x)) = dxfattribs x
   \<and> attached_entities (snd (set_owner owner p x)) = attached_entities x
   \<and> length (linked_entities (snd (set_owner owner p x))) = length (linked_entities x)
   \<and> dxf (snd (set_owner owner p x)) |` (- {''owner'', ''paperspace''})
       = dxf x |` (- {''owner'', ''paperspace''})
   \<and> linked_entities (snd (set_owner owner p x)) =
       map (\<lambda>c. snd (set_owner owner p c)) (linked_entities x)"
  by (cases x) (auto simp add: Let_def restrict_map_def fun_eq_iff)

text \<open>
  Claim C8 (scenario F). Each of the six geometric operations of the base class, which
  a kind that does not override it inherits, raises \<^verbatim>\<open>DXFUnsupportedFeature\<close> with
  the entity's \<^verbatim>\<open>DXFTYPE\<close> when \<^verbatim>\<open>ignore\<close> is false, and returns nothing and leaves
  the entity as it was when \<^verbatim>\<open>ignore\<close> is true.
\<close>

theorem unsupported_operation_raises_unless_ignored:
  "translate direction False e = Inl (DXFUnsupportedFeature (DXFTYPE e))
   \<and> translate direction True e = Inr ((), e)
   \<and> scale factor False e = Inl (DXFUnsupportedFeature (DXFTYPE e))
   \<and> scale factor True e = Inr ((), e)
   \<and> scale_xyz sx sy sz False e = Inl (DXFUnsupportedFeature (DXFTYPE e))
   \<and> scale_xyz sx sy sz True e = Inr ((), e)
   \<and> rotate angle ucs False e = Inl (DXFUnsupportedFeature (DXFTYPE e))
   \<and> rotate angle ucs True e = Inr ((), e)
   \<and> transform matrix False e = Inl (DXFUnsupportedFeature (DXFTYPE e))
   \<and> transform matrix True e = Inr ((), e)
   \<and> to_wsc ucs' False e = Inl (DXFUnsupportedFeature (DXFTYPE e))
   \<and> to_wsc ucs' True e = Inr ((), e)"
  by (simp add: translate_def scale_def scale_xyz_def rotate_def transform_def to_wsc_def Let_def)

text \<open>
  Claim C9 (scenario E). \<^verbatim>\<open>set_owner(owner, paperspace)\<close> returns nothing. Afterwards
  the entity and every entity reachable from it through \<^verbatim>\<open>linked_entities()\<close> has the
  given owner, and has \<^verbatim>\<open>paperspace\<close> set to the flag when the flag is not 0 and
  unset when it is 0. On each of them the type, the declared attributes, the attached
  entities, the number of linked entities and every attribute other than \<^verbatim>\<open>owner\<close>
  and \<^verbatim>\<open>paperspace\<close> are as before; the linked children are the old ones after the same
  call.
\<close>

theorem set_owner_reassigns_linked_children:
  "list_all (\<lambda>x. dxf x ''owner'' = Some (DXFStr owner)
               \<and> dxf x ''paperspace'' = (if p = 0 then None else Some (DXFInt p)))
     (linked_closure (snd (set_owner owner p e)))
   \<and> map (\<lambda>x. (DXFTYPE x, truth_value x, dxfattribs x, attached_entities x,
               length (linked_entities x),
               dxf x |` (- {''owner'', ''paperspace''})))
       (linked_closure (snd (set_owner owner p e)))
     = map (\<lambda>x. (DXFTYPE x, truth_value x, dxfattribs x, attached_entities x,
               length (linked_entities x),
               dxf x |` (- {''owner'', ''paperspace''})))
       (linked_closure e)
   \<and> linked_entities (snd (set_owner owner p e)) =
       map (\<lambda>c. snd (set_owner owner p c)) (linked_entities e)
   \<and> fst (set_owner owner p e) = ()"
  unfolding linked_closure_set_owner
  by (simp add: list_all_iff set_owner_node o_def)

theorem set_owner_reassigns_linked_children_witness:
  "list_all (\<lambda>x. dxf x ''owner'' = Some (DXFStr ''1F'') \<and> dxf x ''paperspace'' = None)
     (linked_closure (snd (set_owner ''1F'' 0
        (DXFGraphic ''INSERT'' True [] [''owner'' \<mapsto> DXFStr ''2A'', ''paperspace'' \<mapsto> DXFInt 1]
           [DXFGraphic ''ATTRIB'' True [] [''owner'' \<mapsto> DXFStr ''2A'', ''paperspace'' \<mapsto> DXFInt 1] [] [],
            DXFGraphic ''ATTRIB'' True [] [''owner'' \<mapsto> DXFStr ''2A'', ''paperspace'' \<mapsto> DXFInt 1] []
              [DXFGraphic ''MTEXT'' True [] Map.empty [] []]]
           []))))
   \<and> length (linked_closure (snd (set_owner ''1F'' 0
        (DXFGraphic ''INSERT'' True [] [''owner'' \<mapsto> DXFStr ''2A'', ''paperspace'' \<mapsto> DXFInt 1]
           [DXFGraphic ''ATTRIB'' True [] [''owner'' \<mapsto> DXFStr ''2A'', ''paperspace'' \<mapsto> DXFInt 1] [] [],
            DXFGraphic ''ATTRIB'' True [] [''owner'' \<mapsto> DXFStr ''2A'', ''paperspace'' \<mapsto> DXFInt 1] []
              [DXFGraphic ''MTEXT'' True [] Map.empty [] []]]
           [])))) = 3"
  using set_owner_reassigns_linked_children [of "''1F''" 0
        "DXFGraphic ''INSERT'' True [] [''owner'' \<mapsto> DXFStr ''2A'', ''paperspace'' \<mapsto> DXFInt 1]
           [DXFGraphic ''ATTRIB'' True [] [''owner'' \<mapsto> DXFStr ''2A'', ''paperspace'' \<mapsto> DXFInt 1] [] [],
            DXFGraphic ''ATTRIB'' True [] [''owner'' \<mapsto> DXFStr ''2A'', ''paperspace'' \<mapsto> DXFInt 1] []
              [DXFGraphic ''MTEXT'' True [] Map.empty [] []]]
           []"]
  by simp

text \<open>
  Claim C10. For an entity whose kind supports \<^verbatim>\<open>extrusion\<close> and whose
  \<^verbatim>\<open>extrusion\<close> is unset, \<^verbatim>\<open>ocs()\<close> returns the OCS of the default extrusion
  (0, 0, 1); \<^verbatim>\<open>ocs()\<close> returns \<^verbatim>\<open>None\<close> exactly for the kinds that do not support
  \<^verbatim>\<open>extrusion\<close>.
\<close>

theorem ocs_defaults_to_z_axis:
  "(is_supported e ''extrusion'' \<and> dxf e ''extrusion'' = None
      \<longrightarrow> ocs e = Some (OCS (DXFVec (0, 0, 1))))
   \<and> (ocs e = None) = (\<not> is_supported e ''extrusion'')"
  by (simp add: ocs_def dxf_get_def)

theorem ocs_defaults_to_z_axis_witness:
  "is_supported (DXFGraphic ''CIRCLE'' True [''layer'', ''extrusion''] [''layer'' \<mapsto> DXFStr ''0''] [] [])
      ''extrusion''
   \<and> dxf (DXFGraphic ''CIRCLE'' True [''layer'', ''extrusion''] [''layer'' \<mapsto> DXFStr ''0''] [] [])
      ''extrusion'' = None
   \<and> ocs (DXFGraphic ''CIRCLE'' True [''layer'', ''extrusion''] [''layer'' \<mapsto> DXFStr ''0''] [] [])
      = Some (OCS (DXFVec (0, 0, 1)))
   \<and> ocs (DXFGraphic ''LINE'' True [''layer''] [''layer'' \<mapsto> DXFStr ''0''] [] []) = None"
  using
    ocs_defaults_to_z_axis
      [of "DXFGraphic ''CIRCLE'' True [''layer'', ''extrusion''] [''layer'' \<mapsto> DXFStr ''0''] [] []"]
    ocs_defaults_to_z_axis
      [of "DXFGraphic ''LINE'' True [''layer''] [''layer'' \<mapsto> DXFStr ''0''] [] []"]
  by (simp add: is_supported_def)

section \<open>Properties of loading and exporting the subclass\<close>

lemma find_code_None:
  "(find (\<lambda>(name, a). attr_code a = c) schema = None) =
     (c \<notin> set (map (attr_code \<circ> snd) schema))"
  by (induction schema) auto

lemma find_code_Some:
  assumes "distinct (map (attr_code \<circ> snd) schema)"
  shows "(find (\<lambda>(name, a). attr_code a = c) schema = Some (n, a)) =
         ((n, a) \<in> set schema \<and> attr_code a = c)"
  using assms
proof (induction schema)
  case Nil
  then show ?case by simp
next
  case (Cons x schema)
  then show ?case by (cases x) force
qed

lemma load_tags_Cons_snd:
  "snd (load_tags schema (t # ts) ns) =
     (case find (\<lambda>(name, a). attr_code a = fst t) schema of
        Some (name, a) \<Rightarrow> snd (load_tags schema ts (ns(name \<mapsto> snd t)))
      | None \<Rightarrow> t # snd (load_tags schema ts ns))"
  by (simp split: option.splits prod.splits)

lemma load_tags_Cons_fst:
  "fst (load_tags schema (t # ts) ns) =
     (case find (\<lambda>(name, a). attr_code a = fst t) schema of
        Some (name, a) \<Rightarrow> fst (load_tags schema ts (ns(name \<mapsto> snd t)))
      | None \<Rightarrow> fst (load_tags schema ts ns))"
  by (simp split: option.splits prod.splits)

lemma load_tags_unprocessed:
  "snd (load_tags schema ts ns) =
     filter (\<lambda>t. fst t \<notin> set (map (attr_code \<circ> snd) schema)) ts"
proof (induction ts arbitrary: ns)
  case Nil
  then show ?case by simp
next
  case (Cons t ts)
  let ?known = "set (map (attr_code \<circ> snd) schema)"
  show ?case
  proof (cases "find (\<lambda>(name, a). attr_code a = fst t) schema")
    case None
    have unknown: "fst t \<notin> ?known"
      using None find_code_None [of "fst t" schema] by blast
    have "snd (load_tags schema (t # ts) ns) = t # snd (load_tags schema ts ns)"
      by (simp only: load_tags_Cons_snd None option.case)
    also have "\<dots> = t # filter (\<lambda>t. fst t \<notin> ?known) ts"
      by (simp only: Cons.IH)
    also have "\<dots> = filter (\<lambda>t. fst t \<notin> ?known) (t # ts)"
      using unknown by simp
    finally show ?thesis .
  next
    case (Some na)
    obtain n a where na: "na = (n, a)" by (cases na)
    have known: "fst t \<in> ?known"
      using Some find_code_None [of "fst t" schema] by auto
    have "snd (load_tags schema (t # ts) ns) = snd (load_tags schema ts (ns(n \<mapsto> snd t)))"
      by (simp only: load_tags_Cons_snd Some na option.case prod.case)
    also have "\<dots> = filter (\<lambda>t. fst t \<notin> ?known) ts"
      by (simp only: Cons.IH)
    also have "\<dots> = filter (\<lambda>t. fst t \<notin> ?known) (t # ts)"
      using known by simp
    finally show ?thesis .
  qed
qed

lemma load_tags_dom:
  assumes "distinct (map (attr_code \<circ> snd) schema)"
  shows "dom (fst (load_tags schema ts ns)) =
     dom ns \<union> {name. \<exists>a v. (name, a) \<in> set schema \<and> (attr_code a, v) \<in> set ts}"
proof (induction ts arbitrary: ns)
  case Nil
  then show ?case by simp
next
  case (Cons t ts)
  let ?stored = "\<lambda>ts. {name. \<exists>a v. (name, a) \<in> set schema \<and> (attr_code a, v) \<in> set ts}"
  let ?slot = "{name. \<exists>a. (name, a) \<in> set schema \<and> attr_code a = fst t}"
  have step: "?stored (t # ts) = ?slot \<union> ?stored ts"
    by (cases t) auto
  show ?case
  proof (cases "find (\<lambda>(name, a). attr_code a = fst t) schema")
    case None
    have slot: "?slot = {}"
      using None find_code_None [of "fst t" schema] by force
    have stored: "?stored (t # ts) = ?stored ts"
      unfolding step slot by simp
    have "dom (fst (load_tags schema (t # ts) ns)) = dom (fst (load_tags schema ts ns))"
      by (simp only: load_tags_Cons_fst None option.case)
    also have "\<dots> = dom ns \<union> ?stored ts"
      by (rule Cons.IH)
    finally show ?thesis
      unfolding stored .
  next
    case (Some na)
    obtain n a where na: "na = (n, a)" by (cases na)
    have found: "find (\<lambda>(name, a). attr_code a = fst t) schema = Some (n, a)"
      using Some na by simp
    then have mem: "(n, a) \<in> set schema" "attr_code a = fst t"
      by (simp_all add: find_code_Some [OF assms])
    have uniq: "n' = n" if "(n', a') \<in> set schema" "attr_code a' = fst t" for n' a'
    proof -
      from that have "find (\<lambda>(name, a). attr_code a = fst t) schema = Some (n', a')"
        by (simp add: find_code_Some [OF assms])
      with found show ?thesis by simp
    qed
    have slot: "?slot = {n}"
    proof
      show "?slot \<subseteq> {n}"
        using uniq by blast
      show "{n} \<subseteq> ?slot"
        using mem by blast
    qed
    have stored: "?stored (t # ts) = insert n (?stored ts)"
      unfolding step slot by simp
    have "dom (fst (load_tags schema (t # ts) ns)) =
          dom (fst (load_tags schema ts (ns(n \<mapsto> snd t))))"
      by (simp only: load_tags_Cons_fst found option.case prod.case)
    also have "\<dots> = dom (ns(n \<mapsto> snd t)) \<union> ?stored ts"
      by (rule Cons.IH)
    also have "\<dots> = dom ns \<union> insert n (?stored ts)"
      by simp
    finally show ?thesis
      unfolding stored .
  qed
qed

lemma acdb_entity_codes:
  "map (attr_code \<circ> snd) (attribs acdb_entity) =
     [8, 6, 62, 67, 370, 48, 60, 420, 430, 440, 284, 347, 390]"
  by (simp add: acdb_entity_def DXFAttr_def)

lemma acdb_entity_codes_distinct: "distinct (map (attr_code \<circ> snd) (attribs acdb_entity))"
  unfolding acdb_entity_codes by simp

text \<open>
  Claim C4. Decoding a tag whose slot is not in the schema neither raises nor stops the
  decoding, and the claim has every such leftover tag reported through
  \<^verbatim>\<open>log_unprocessed_tags\<close> for every format version. The code reports them only when
  the processor is not R12. As amended: the leftover tags are exactly the tags whose
  group code \<^verbatim>\<open>acdb_entity\<close> does not declare, in their order; when there is at
  least one and the processor is not R12 they are reported in one call under the name
  AcDbEntity, and for an R12 processor nothing is reported. Every tag whose group code
  is declared is stored under its attribute name, wherever it stands among the unknown
  ones.
\<close>

theorem unknown_tags_logged_unless_r12:
  "snd (load_dxf_attribs dxf0 (Some p)) =
     (let unknown = filter (\<lambda>t. fst t \<notin> set (map (attr_code \<circ> snd) (attribs acdb_entity)))
                      (subclass_tags p)
      in if unknown = [] \<or> r12 p then [] else [Log_unprocessed_tags unknown ''AcDbEntity''])
   \<and> dom (fst (load_dxf_attribs dxf0 (Some p))) =
       dom dxf0 \<union> {name. \<exists>a v. (name, a) \<in> set (attribs acdb_entity)
                              \<and> (attr_code a, v) \<in> set (subclass_tags p)}"
proof -
  let ?loaded = "load_tags (attribs acdb_entity) (subclass_tags p) dxf0"
  let ?unknown = "filter (\<lambda>t. fst t \<notin> set (map (attr_code \<circ> snd) (attribs acdb_entity)))
                    (subclass_tags p)"
  have tags: "snd ?loaded = ?unknown"
    by (rule load_tags_unprocessed)
  have d: "dom (fst ?loaded) = dom dxf0 \<union> {name. \<exists>a v. (name, a) \<in> set (attribs acdb_entity)
                              \<and> (attr_code a, v) \<in> set (subclass_tags p)}"
    by (rule load_tags_dom [OF acdb_entity_codes_distinct])
  have n: "subclass_name acdb_entity = ''AcDbEntity''"
    by (simp add: acdb_entity_def)
  have unfolded: "load_dxf_attribs dxf0 (Some p) =
      (if snd ?loaded \<noteq> [] \<and> \<not> r12 p
       then (fst ?loaded, [Log_unprocessed_tags (snd ?loaded) ''AcDbEntity''])
       else (fst ?loaded, []))"
    unfolding load_dxf_attribs_def load_dxfattribs_into_namespace_def n
    by (simp only: option.case split_beta length_0_conv)
  have log: "snd (load_dxf_attribs dxf0 (Some p)) =
      (if ?unknown = [] \<or> r12 p then [] else [Log_unprocessed_tags ?unknown ''AcDbEntity''])"
    unfolding unfolded tags by simp
  have ns: "fst (load_dxf_attribs dxf0 (Some p)) = fst ?loaded"
    unfolding unfolded by simp
  show ?thesis
    unfolding Let_def ns d using log by blast
qed

text \<open>
  The claim as stated fails for an R12 processor: the handle tag (group code 5) is left
  over by the decoding, and \<^verbatim>\<open>load_dxf_attribs\<close> makes no call to
  \<^verbatim>\<open>log_unprocessed_tags\<close>.
\<close>

theorem r12_unknown_tags_not_logged:
  "snd (load_dxfattribs_into_namespace
          \<lparr>r12 = True, subclass_tags = [(5, DXFStr ''A1''), (8, DXFStr ''0'')]\<rparr>
          Map.empty acdb_entity) = [(5, DXFStr ''A1'')]
   \<and> snd (load_dxf_attribs Map.empty
          (Some \<lparr>r12 = True, subclass_tags = [(5, DXFStr ''A1''), (8, DXFStr ''0'')]\<rparr>)) = []"
  by (simp add: load_dxf_attribs_def load_dxfattribs_into_namespace_def acdb_entity_def DXFAttr_def)

theorem unknown_tags_logged_unless_r12_witness:
  "snd (load_dxf_attribs Map.empty
          (Some \<lparr>r12 = False,
                 subclass_tags = [(999, DXFStr ''x''), (8, DXFStr ''0''), (1071, DXFInt 7)]\<rparr>))
     = [Log_unprocessed_tags [(999, DXFStr ''x''), (1071, DXFInt 7)] ''AcDbEntity'']
   \<and> ''layer'' \<in> dom (fst (load_dxf_attribs Map.empty
          (Some \<lparr>r12 = False,
                 subclass_tags = [(999, DXFStr ''x''), (8, DXFStr ''0''), (1071, DXFInt 7)]\<rparr>)))"
proof -
  have layer: "(''layer'', DXFAttr 8 (Some (DXFStr ''0'')) DXF12 False) \<in> set (attribs acdb_entity)"
    by (simp add: acdb_entity_def)
  have code: "attr_code (DXFAttr 8 (Some (DXFStr ''0'')) DXF12 False) = 8"
    by (simp add: DXFAttr_def)
  show ?thesis
    using unknown_tags_logged_unless_r12 [of Map.empty
          "\<lparr>r12 = False, subclass_tags = [(999, DXFStr ''x''), (8, DXFStr ''0''), (1071, DXFInt 7)]\<rparr>"]
      layer code
    by (simp add: acdb_entity_codes) force
qed

lemma export_dxf_attrib_shape:
  "export_dxf_attrib v schema ns name = [] \<or>
   (\<exists>a x. map_of schema name = Some a \<and> export_dxf_attrib v schema ns name = [(attr_code a, x)]
      \<and> \<not> (ns name = None \<and> attr_optional a) \<and> attr_dxfversion a \<le> v)"
  by (auto simp add: export_dxf_attrib_def split: option.splits)

lemma export_dxf_attribs_Nil: "export_dxf_attribs v schema ns [] = []"
  by (simp add: export_dxf_attribs_def)

lemma export_dxf_attribs_Cons:
  "export_dxf_attribs v schema ns (name # names) =
     export_dxf_attrib v schema ns name @ export_dxf_attribs v schema ns names"
  by (simp add: export_dxf_attribs_def)

lemma export_dxf_attribs_subseq:
  "subseq (map fst (export_dxf_attribs v schema ns names))
     (concat (map (\<lambda>name. case map_of schema name of None \<Rightarrow> [] | Some a \<Rightarrow> [attr_code a]) names))"
proof (induction names)
  case Nil
  then show ?case by (simp add: export_dxf_attribs_Nil)
next
  case (Cons name names)
  have one: "subseq (map fst (export_dxf_attrib v schema ns name))
      (case map_of schema name of None \<Rightarrow> [] | Some a \<Rightarrow> [attr_code a])"
    using export_dxf_attrib_shape [of v schema ns name] by (auto split: option.splits)
  show ?case
    unfolding export_dxf_attribs_Cons
    using list_emb_append_mono [OF one Cons.IH] by simp
qed

lemma export_dxf_attribs_code:
  assumes "c \<in> fst ` set (export_dxf_attribs v schema ns names)"
  shows "\<exists>name a. map_of schema name = Some a \<and> attr_code a = c
           \<and> \<not> (ns name = None \<and> attr_optional a) \<and> attr_dxfversion a \<le> v"
  using assms
proof (induction names)
  case Nil
  then show ?case by (simp add: export_dxf_attribs_Nil)
next
  case (Cons name names)
  from Cons.prems consider
      (head) "c \<in> fst ` set (export_dxf_attrib v schema ns name)"
    | (tail) "c \<in> fst ` set (export_dxf_attribs v schema ns names)"
    unfolding export_dxf_attribs_Cons by auto
  then show ?case
  proof cases
    case head
    then have "export_dxf_attrib v schema ns name \<noteq> []"
      by auto
    with export_dxf_attrib_shape [of v schema ns name]
    obtain a x where a: "map_of schema name = Some a"
      and tag: "export_dxf_attrib v schema ns name = [(attr_code a, x)]"
      and emitted: "\<not> (ns name = None \<and> attr_optional a)" "attr_dxfversion a \<le> v"
      by blast
    from head tag have "attr_code a = c"
      by simp
    with a emitted show ?thesis
      by blast
  next
    case tail
    then show ?thesis by (rule Cons.IH)
  qed
qed


lemma export_order_codes:
  "concat (map (\<lambda>name. case map_of (attribs acdb_entity) name of None \<Rightarrow> [] | Some a \<Rightarrow> [attr_code a])
     [''layer'', ''linetype'', ''material_handle'', ''color'', ''paperspace'', ''lineweight'',
      ''ltscale'', ''true_color'', ''color_name'', ''transparency'', ''plotstyle_handle'',
      ''shadow_mode'']) =
   [8, 6, 347, 62, 67, 370, 48, 420, 430, 440, 390, 284]"
  by (simp add: acdb_entity_def DXFAttr_def)

lemma acdb_entity_code_unique:
  assumes "(name, a) \<in> set (attribs acdb_entity)"
    and "map_of (attribs acdb_entity) name' = Some a'"
    and "attr_code a' = attr_code a"
  shows "name' = name \<and> a' = a"
proof -
  from assms(2) have mem': "(name', a') \<in> set (attribs acdb_entity)"
    by (rule map_of_SomeD)
  have "find (\<lambda>(n, b). attr_code b = attr_code a) (attribs acdb_entity) = Some (name, a)"
    using assms(1) by (simp add: find_code_Some [OF acdb_entity_codes_distinct])
  moreover have "find (\<lambda>(n, b). attr_code b = attr_code a) (attribs acdb_entity) = Some (name', a')"
    using mem' assms(3) by (simp add: find_code_Some [OF acdb_entity_codes_distinct])
  ultimately show ?thesis by simp
qed

text \<open>
  Claim C5. For every target version above \<^verbatim>\<open>DXF12\<close> the export writes the
  subclass marker with the name AcDbEntity once, before the attribute tags, and for
  \<^verbatim>\<open>DXF12\<close> and below it writes no marker. The claim has the attribute tags
  follow in the order \<^verbatim>\<open>acdb_entity\<close> declares them; the code writes them in the
  order of the list in \<^verbatim>\<open>export_acdb_entity\<close>, which is another one. As amended:
  the group codes of the attribute tags are a subsequence of 8, 6, 347, 62, 67, 370,
  48, 420, 430, 440, 390, 284 (layer, linetype, material_handle, color, paperspace,
  lineweight, ltscale, true_color, color_name, transparency, plotstyle_handle,
  shadow_mode), and an attribute that is unset and optional, or whose first version is
  above the target version, has no tag.
\<close>

theorem export_acdb_entity_shape:
  "\<exists>attr_tags.
     export_acdb_entity v e =
       (if v > DXF12 then [(SUBCLASS_MARKER, DXFStr ''AcDbEntity'')] else []) @ attr_tags
     \<and> SUBCLASS_MARKER \<notin> fst ` set attr_tags
     \<and> subseq (map fst attr_tags) [8, 6, 347, 62, 67, 370, 48, 420, 430, 440, 390, 284]
     \<and> (\<forall>(name, a) \<in> set (attribs acdb_entity).
           (dxf e name = None \<and> attr_optional a) \<or> v < attr_dxfversion a
             \<longrightarrow> attr_code a \<notin> fst ` set attr_tags)"
proof -
  let ?names = "[''layer'', ''linetype'', ''material_handle'', ''color'', ''paperspace'',
      ''lineweight'', ''ltscale'', ''true_color'', ''color_name'', ''transparency'',
      ''plotstyle_handle'', ''shadow_mode'']"
  let ?tags = "export_dxf_attribs v (attribs acdb_entity) (dxf e) ?names"
  have n: "subclass_name acdb_entity = ''AcDbEntity''"
    by (simp add: acdb_entity_def)
  have whole: "export_acdb_entity v e =
      (if v > DXF12 then [(SUBCLASS_MARKER, DXFStr ''AcDbEntity'')] else []) @ ?tags"
    by (simp only: export_acdb_entity_def n)
  have order: "subseq (map fst ?tags) [8, 6, 347, 62, 67, 370, 48, 420, 430, 440, 390, 284]"
    using export_dxf_attribs_subseq [of v "attribs acdb_entity" "dxf e" ?names]
    by (simp only: export_order_codes)
  have marker: "SUBCLASS_MARKER \<notin> fst ` set ?tags"
  proof
    assume "SUBCLASS_MARKER \<in> fst ` set ?tags"
    then have m: "SUBCLASS_MARKER \<in> set (map fst ?tags)"
      by (simp only: set_map)
    from list_emb_set [OF order m]
    obtain y where "y \<in> set [8, 6, 347, 62, 67, 370, 48, 420, 430, 440, 390, 284]"
      and "SUBCLASS_MARKER = y"
      by blast
    then show False
      by (simp add: SUBCLASS_MARKER_def)
  qed
  have omitted: "attr_code a \<notin> fst ` set ?tags"
    if mem: "(name, a) \<in> set (attribs acdb_entity)"
      and skip: "(dxf e name = None \<and> attr_optional a) \<or> v < attr_dxfversion a" for name a
  proof
    assume "attr_code a \<in> fst ` set ?tags"
    from export_dxf_attribs_code [OF this]
    obtain name' a' where a': "map_of (attribs acdb_entity) name' = Some a'"
      and code: "attr_code a' = attr_code a"
      and emitted: "\<not> (dxf e name' = None \<and> attr_optional a')" "attr_dxfversion a' \<le> v"
      by blast
    from acdb_entity_code_unique [OF mem a' code] have "name' = name" "a' = a"
      by simp_all
    with emitted skip show False
      by auto
  qed
  show ?thesis
    using whole marker order omitted by blast
qed

text \<open>
  The claim as stated fails: \<^verbatim>\<open>acdb_entity\<close> declares \<^verbatim>\<open>color\<close> (62) before
  \<^verbatim>\<open>material_handle\<close> (347), and the export of an entity with both set writes 347
  before 62.
\<close>

theorem export_order_is_not_declared_order:
  "export_acdb_entity DXF2007
     (DXFGraphic ''LINE'' True []
        [''layer'' \<mapsto> DXFStr ''0'', ''color'' \<mapsto> DXFInt 1, ''material_handle'' \<mapsto> DXFStr ''A1'']
        [] [])
     = [(SUBCLASS_MARKER, DXFStr ''AcDbEntity''), (8, DXFStr ''0''), (347, DXFStr ''A1''),
        (62, DXFInt 1)]
   \<and> map (attr_code \<circ> snd) (attribs acdb_entity) =
       [8, 6, 62, 67, 370, 48, 60, 420, 430, 440, 284, 347, 390]
   \<and> \<not> subseq [8, 347, 62] (map (attr_code \<circ> snd) (attribs acdb_entity))"
proof -
  have "\<not> subseq [8, 347, 62 :: int] [8, 6, 62, 67, 370, 48, 60, 420, 430, 440, 284, 347, 390]"
    by (simp add: list_emb_code)
  moreover have "export_acdb_entity DXF2007
     (DXFGraphic ''LINE'' True []
        [''layer'' \<mapsto> DXFStr ''0'', ''color'' \<mapsto> DXFInt 1, ''material_handle'' \<mapsto> DXFStr ''A1'']
        [] [])
     = [(SUBCLASS_MARKER, DXFStr ''AcDbEntity''), (8, DXFStr ''0''), (347, DXFStr ''A1''),
        (62, DXFInt 1)]"
    by (simp add: export_acdb_entity_def export_dxf_attribs_def export_dxf_attrib_def
        acdb_entity_def DXFAttr_def DXF12_def DXF2000_def DXF2004_def DXF2007_def)
  ultimately show ?thesis
    by (simp only: acdb_entity_codes simp_thms)
qed

theorem export_acdb_entity_shape_witness:
  "(''linetype'', DXFAttr 6 (Some (DXFStr ''BYLAYER'')) DXF12 True) \<in> set (attribs acdb_entity)
   \<and> dxf (DXFGraphic ''LINE'' True [] [''layer'' \<mapsto> DXFStr ''0'', ''lineweight'' \<mapsto> DXFInt 35] [] [])
        ''linetype'' = None
   \<and> (''lineweight'', DXFAttr 370 (Some (DXFInt (- 1))) DXF2000 True) \<in> set (attribs acdb_entity)
   \<and> DXF12 < DXF2000
   \<and> (\<exists>attr_tags.
        export_acdb_entity DXF12
          (DXFGraphic ''LINE'' True [] [''layer'' \<mapsto> DXFStr ''0'', ''lineweight'' \<mapsto> DXFInt 35] [] [])
          = attr_tags
        \<and> SUBCLASS_MARKER \<notin> fst ` set attr_tags
        \<and> 6 \<notin> fst ` set attr_tags
        \<and> 370 \<notin> fst ` set attr_tags)"
proof -
  let ?e = "DXFGraphic ''LINE'' True [] [''layer'' \<mapsto> DXFStr ''0'', ''lineweight'' \<mapsto> DXFInt 35] [] []"
  have lt: "(''linetype'', DXFAttr 6 (Some (DXFStr ''BYLAYER'')) DXF12 True) \<in> set (attribs acdb_entity)"
    by (simp add: acdb_entity_def)
  have lw: "(''lineweight'', DXFAttr 370 (Some (DXFInt (- 1))) DXF2000 True) \<in> set (attribs acdb_entity)"
    by (simp add: acdb_entity_def)
  have gate: "DXF12 < DXF2000"
    by (simp add: DXF12_def DXF2000_def)
  have absent: "dxf ?e ''linetype'' = None"
    by simp
  from export_acdb_entity_shape [of DXF12 ?e]
  obtain attr_tags where whole': "export_acdb_entity DXF12 ?e =
        (if DXF12 > DXF12 then [(SUBCLASS_MARKER, DXFStr ''AcDbEntity'')] else []) @ attr_tags"
    and marker: "SUBCLASS_MARKER \<notin> fst ` set attr_tags"
    and omitted: "\<forall>(name, a) \<in> set (attribs acdb_entity).
           (dxf ?e name = None \<and> attr_optional a) \<or> DXF12 < attr_dxfversion a
             \<longrightarrow> attr_code a \<notin> fst ` set attr_tags"
    by blast
  have whole: "export_acdb_entity DXF12 ?e = attr_tags"
    using whole' by simp
  have "attr_code (DXFAttr 6 (Some (DXFStr ''BYLAYER'')) DXF12 True) \<notin> fst ` set attr_tags"
    using bspec [OF omitted lt] by (simp add: DXFAttr_def)
  then have no6: "6 \<notin> fst ` set attr_tags"
    by (simp add: DXFAttr_def)
  have "attr_code (DXFAttr 370 (Some (DXFInt (- 1))) DXF2000 True) \<notin> fst ` set attr_tags"
    using bspec [OF omitted lw] gate by (simp add: DXFAttr_def)
  then have no370: "370 \<notin> fst ` set attr_tags"
    by (simp add: DXFAttr_def)
  show ?thesis
    using lt lw gate absent whole marker no6 no370 by blast
qed

end
